theory Spec2Isabelle
  imports Complex_Main "HOL-Library.Sublist"
begin

section \<open>Admin panel: product table (filter, paginate, stock class)\<close>

text \<open>
  The admin panel keeps its products in an array of plain objects. The fields are the
  ones of the mock data set; \<open>id\<close> and \<open>image\<close> carry a suffix because HOL already
  has constants of these names.
\<close>

record product =
  id_product :: int
  name :: string
  category :: string
  price :: real
  stock :: int
  description :: string
  image_product :: string

text \<open>
  The fields of \<open>AdminPanel\<close> that the table code reads or writes, together with the
  two DOM inputs \<open>#searchProducts\<close> and \<open>#categoryFilter\<close> whose values
  \<open>getFilteredProducts\<close> reads, and the rows last written to \<open>#productsTableBody\<close>.
\<close>

record admin_panel =
  products :: "product list"
  currentPage :: int
  itemsPerPage :: int
  totalPages :: int
  searchProducts :: string
  categoryFilter :: string
  tableRows :: "product list"

subsection \<open>JavaScript library functions used by the panel\<close>

text \<open>
  \<open>String.prototype.toLowerCase\<close> on the ASCII letters; every other character is
  left as it is (strings are byte strings here, and the data of the repository is ASCII).
\<close>

definition toLowerCase_char :: "char \<Rightarrow> char" where
  "toLowerCase_char c =
     (case map_of (zip ''ABCDEFGHIJKLMNOPQRSTUVWXYZ'' ''abcdefghijklmnopqrstuvwxyz'') c of
        Some l \<Rightarrow> l
      | None \<Rightarrow> c)"

definition toLowerCase :: "string \<Rightarrow> string" where
  "toLowerCase s = map toLowerCase_char s"

text \<open>\<open>s.includes(t)\<close>: \<open>t\<close> occurs in \<open>s\<close> as a contiguous substring.\<close>

fun includes_str :: "string \<Rightarrow> string \<Rightarrow> bool" where
  "includes_str [] t = (t = [])"
| "includes_str (c # cs) t = (prefix t (c # cs) \<or> includes_str cs t)"

text \<open>
  \<open>Array.prototype.slice(start, end)\<close> with integer arguments: a negative index
  counts from the end of the array, both indices are clamped to the array, and an empty
  range gives the empty array.
\<close>

definition slice :: "'a list \<Rightarrow> int \<Rightarrow> int \<Rightarrow> 'a list" where
  "slice xs start final =
     (let n = int (length xs);
          k = (if start < 0 then max (n + start) 0 else min start n);
          e = (if final < 0 then max (n + final) 0 else min final n)
      in take (nat (e - k)) (drop (nat k) xs))"

definition Math_ceil :: "real \<Rightarrow> int" where
  "Math_ceil x = \<lceil>x\<rceil>"

subsection \<open>The methods of \<open>AdminPanel\<close>\<close>

text \<open>The state the constructor leaves, before any product is loaded.\<close>

definition constructor :: "string \<Rightarrow> string \<Rightarrow> admin_panel" where
  "constructor search cat =
     \<lparr>products = [], currentPage = 1, itemsPerPage = 10, totalPages = 0,
      searchProducts = search, categoryFilter = cat, tableRows = []\<rparr>"

definition getStockClass :: "int \<Rightarrow> string" where
  "getStockClass stock_count =
     (if stock_count \<le> 5 then ''stock-low''
      else if stock_count \<le> 20 then ''stock-medium''
      else ''stock-high'')"

definition getFilteredProducts :: "admin_panel \<Rightarrow> product list" where
  "getFilteredProducts st =
     (let searchTerm = toLowerCase (searchProducts st);
          catFilter = categoryFilter st
      in filter (\<lambda>p.
           let matchesSearch = (searchTerm = [] \<or>
                 includes_str (toLowerCase (name p)) searchTerm \<or>
                 includes_str (toLowerCase (description p)) searchTerm);
               matchesCategory = (catFilter = [] \<or> category p = catFilter)
           in matchesSearch \<and> matchesCategory) (products st))"

definition getPaginatedProducts :: "admin_panel \<Rightarrow> product list \<Rightarrow> product list" where
  "getPaginatedProducts st ps =
     (let startIndex = (currentPage st - 1) * itemsPerPage st;
          endIndex = startIndex + itemsPerPage st
      in slice ps startIndex endIndex)"

text \<open>
  \<open>renderPagination\<close> stores the number of pages and then writes the page buttons;
  only the stored number is part of the state here.
\<close>

definition renderPagination :: "admin_panel \<Rightarrow> nat \<Rightarrow> admin_panel" where
  "renderPagination st totalItems =
     st\<lparr>totalPages := Math_ceil (real totalItems / real_of_int (itemsPerPage st))\<rparr>"

text \<open>
  \<open>renderProducts\<close> returns early, before \<open>renderPagination\<close>, when the page to
  show is empty.
\<close>

definition renderProducts :: "admin_panel \<Rightarrow> admin_panel" where
  "renderProducts st =
     (let filteredProducts = getFilteredProducts st;
          paginatedProducts = getPaginatedProducts st filteredProducts
      in if paginatedProducts = [] then st\<lparr>tableRows := []\<rparr>
         else renderPagination (st\<lparr>tableRows := paginatedProducts\<rparr>)
                (length filteredProducts))"

definition goToPage :: "int \<Rightarrow> admin_panel \<Rightarrow> admin_panel" where
  "goToPage page st = renderProducts (st\<lparr>currentPage := page\<rparr>)"

definition filterProducts :: "admin_panel \<Rightarrow> admin_panel" where
  "filterProducts st = renderProducts (st\<lparr>currentPage := 1\<rparr>)"

text \<open>The four sample products of \<open>loadMockProducts\<close>.\<close>

definition mockProducts :: "product list" where
  "mockProducts =
     [\<lparr>id_product = 1, name = ''Golden Elegance Necklace'', category = ''necklaces'',
       price = 40000, stock = 15,
       description = ''Handcrafted in 18K gold with dazzling diamonds'',
       image_product = ''images/necklace_1.png''\<rparr>,
      \<lparr>id_product = 2, name = ''Diamond Ring'', category = ''rings'',
       price = 950, stock = 8,
       description = ''Exquisite diamond ring with platinum setting'',
       image_product = ''images/necklace_2.png''\<rparr>,
      \<lparr>id_product = 3, name = ''Pearl Earrings'', category = ''earrings'',
       price = 780, stock = 3,
       description = ''Classic pearl earrings for elegant occasions'',
       image_product = ''images/necklace_3.png''\<rparr>,
      \<lparr>id_product = 4, name = ''Luxury Bracelet'', category = ''bracelets'',
       price = 1100, stock = 12,
       description = ''Sophisticated gold bracelet with intricate design'',
       image_product = ''images/necklace_4.png''\<rparr>]"

definition loadMockProducts :: "admin_panel \<Rightarrow> admin_panel" where
  "loadMockProducts st = renderProducts (st\<lparr>products := mockProducts\<rparr>)"

text \<open>
  The success branch of \<open>loadProducts\<close>: the array the server sent replaces the
  products and the table is rendered again.
\<close>

definition loadProducts_ok :: "product list \<Rightarrow> admin_panel \<Rightarrow> admin_panel" where
  "loadProducts_ok ps st = renderProducts (st\<lparr>products := ps\<rparr>)"

section \<open>Local admin: storage adapter, image ingestion, product store\<close>

subsection \<open>\<open>localStorage\<close>\<close>

text \<open>
  The two collections hold different objects: a product
  \<open>{id, title, price, description, image, category}\<close> whose category is \<open>null\<close>
  or \<open>{id, name}\<close>, and a category \<open>{id, name, image}\<close>. The name inside a
  product's category is optional because \<open>found.name\<close> is \<open>undefined\<close> when the
  object found under the categories key has no such property.
\<close>

text \<open>
  The texts of the stored objects come from form inputs, so they are JavaScript strings in
  full: lists of UTF-16 code units. \<open>units\<close> gives the code units of an ASCII string.
\<close>

type_synonym js_string = "nat list"

definition units :: "string \<Rightarrow> js_string" where
  "units s = map of_char s"

datatype entry =
    Product (id_entry: int) (title: js_string) (price_entry: real)
      (description_entry: js_string) (image_entry: js_string)
      (category_entry: "(int \<times> js_string option) option")
  | Category (id_entry: int) (name_entry: js_string) (image_entry: js_string)

text \<open>
  A stored string is represented by what \<open>JSON.parse\<close> makes of it: an array, some
  other JSON value, or a syntax error. The storage is the list of its key/value pairs.
\<close>

datatype 'a stored = Json_array "'a list" | Json_other | Malformed

type_synonym 'a storage = "(string \<times> 'a stored) list"

datatype dom_exception = QuotaExceededError | SecurityError

text \<open>
  \<open>setItem\<close> is the browser's. The functions below take it as a parameter; the
  instance \<open>quota_setItem\<close> refuses a write, leaving the storage as it was, when the
  keys and values would weigh more than the quota, and otherwise stores the value.
\<close>

type_synonym 'a set_item = "'a storage \<Rightarrow> string \<Rightarrow> 'a stored \<Rightarrow> dom_exception + 'a storage"

fun update_item :: "string \<Rightarrow> 'a stored \<Rightarrow> 'a storage \<Rightarrow> 'a storage" where
  "update_item k v [] = [(k, v)]"
| "update_item k v ((k', v') # kvs) =
     (if k' = k then (k, v) # kvs else (k', v') # update_item k v kvs)"

definition used :: "('a stored \<Rightarrow> nat) \<Rightarrow> 'a storage \<Rightarrow> nat" where
  "used weight st = sum_list (map (\<lambda>(k, v). length k + weight v) st)"

definition quota_setItem :: "('a stored \<Rightarrow> nat) \<Rightarrow> nat \<Rightarrow> 'a set_item" where
  "quota_setItem weight quota st k v =
     (let st' = update_item k v st
      in if used weight st' > quota then Inl QuotaExceededError else Inr st')"

definition getItem :: "'a storage \<Rightarrow> string \<Rightarrow> 'a stored option" where
  "getItem st k = map_of st k"

definition PRODUCTS_KEY :: string where
  "PRODUCTS_KEY = ''local-products''"

definition CATEGORIES_KEY :: string where
  "CATEGORIES_KEY = ''local-categories''"

subsection \<open>Helpers\<close>

text \<open>
  \<open>safeParse\<close> gives the empty array for a missing key and for a string that does not
  parse; a string that parses is returned whatever JSON value it holds.
\<close>

definition safeParse :: "'a stored option \<Rightarrow> 'a stored" where
  "safeParse raw =
     (case raw of
        None \<Rightarrow> Json_array []
      | Some Malformed \<Rightarrow> Json_array []
      | Some v \<Rightarrow> v)"

definition loadLocal :: "'a storage \<Rightarrow> string \<Rightarrow> 'a stored" where
  "loadLocal st k = safeParse (getItem st k)"

definition saveLocal :: "'a set_item \<Rightarrow> 'a storage \<Rightarrow> string \<Rightarrow> 'a list \<Rightarrow> dom_exception + 'a storage" where
  "saveLocal setItem st k arr = setItem st k (Json_array arr)"

text \<open>The array methods the handlers call on a loaded value; a non-array has none of them.\<close>

definition as_array :: "'a stored \<Rightarrow> 'a list option" where
  "as_array v = (case v of Json_array xs \<Rightarrow> Some xs | _ \<Rightarrow> None)"

subsection \<open>\<open>safeSaveLocal\<close>\<close>

text \<open>
  The result is the returned boolean, the storage afterwards and the alerts shown.
  The variable \<open>other\<close> is computed and never read: \<open>existing\<close> is loaded from
  \<open>key\<close>, and the truncated array is written back to \<open>key\<close>. An exception inside
  the inner \<open>try\<close> is swallowed and control reaches the alert.
\<close>

definition quota_alert :: string where
  "quota_alert = ''Failed to save locally: storage quota exceeded. Clear some items in Admin or use smaller images.''"

definition safeSaveLocal :: "'a set_item \<Rightarrow> 'a storage \<Rightarrow> string \<Rightarrow> 'a list \<Rightarrow> bool \<times> 'a storage \<times> string list" where
  "safeSaveLocal setItem st k arr =
     (case setItem st k (Json_array arr) of
        Inr st1 \<Rightarrow> (True, st1, [])
      | Inl SecurityError \<Rightarrow> (False, st, [quota_alert])
      | Inl QuotaExceededError \<Rightarrow>
          (let other = (if k = ''local-products'' then ''local-categories'' else ''local-products'');
               existing = safeParse (getItem st k)
           in case as_array existing of
                None \<Rightarrow> (False, st, [quota_alert])
              | Some xs \<Rightarrow>
                  if length xs > 2 then
                    (let keep = slice xs 0 (max 1 (int (length xs) div 2))
                     in case setItem st k (Json_array keep) of
                          Inl e \<Rightarrow> (False, st, [quota_alert])
                        | Inr st1 \<Rightarrow>
                            (case setItem st1 k (Json_array arr) of
                               Inl e \<Rightarrow> (False, st1, [quota_alert])
                             | Inr st2 \<Rightarrow> (True, st2, [])))
                  else (False, st, [quota_alert])))"

subsection \<open>Image ingestion\<close>

text \<open>
  What the browser does with a file is an input of the model: the outcome of the first and
  of the second \<open>FileReader.readAsDataURL\<close> on it (\<open>None\<close> is \<open>onerror\<close> or an
  exception), the size of the image a data URL decodes to (\<open>None\<close> is the image's
  \<open>onerror\<close>), whether \<open>getContext('2d')\<close> gives a context and
  \<open>drawImage\<close> returns for that image at a given size, the JPEG data URL of the canvas
  (\<open>None\<close> is \<open>toDataURL\<close> throwing), and the rounding \<open>fl\<close> of an
  arithmetic result to a double.
\<close>

record File =
  size_file :: nat

record browser =
  firstRead :: "string option"
  secondRead :: "string option"
  decode :: "string \<Rightarrow> (nat \<times> nat) option"
  draws :: "string \<Rightarrow> int \<Rightarrow> int \<Rightarrow> bool"
  toDataURL :: "string \<Rightarrow> int \<Rightarrow> int \<Rightarrow> real \<Rightarrow> string option"
  fl :: "real \<Rightarrow> real"

text \<open>
  A promise is resolved, is rejected, or is never settled: an exception inside a callback
  that runs later reaches neither \<open>resolve\<close> nor \<open>reject\<close>.
\<close>

datatype 'a settled = Resolved 'a | Rejected | Never_settled

definition fileToDataURL :: "string option \<Rightarrow> File option \<Rightarrow> string settled" where
  "fileToDataURL rd f =
     (case f of
        None \<Rightarrow> Resolved ''''
      | Some _ \<Rightarrow> (case rd of Some url \<Rightarrow> Resolved url | None \<Rightarrow> Rejected))"

definition Math_round :: "real \<Rightarrow> int" where
  "Math_round x = \<lfloor>x + 1 / 2\<rfloor>"

text \<open>
  \<open>Math.min(1, maxWidth / w, maxHeight / h)\<close>. A division by zero gives
  \<open>Infinity\<close> for the positive bounds every call passes, which the minimum with 1
  ignores; 1 stands for it here.
\<close>

definition scale_ratio :: "(real \<Rightarrow> real) \<Rightarrow> real \<Rightarrow> real \<Rightarrow> nat \<Rightarrow> nat \<Rightarrow> real" where
  "scale_ratio rnd maxWidth maxHeight w h =
     min 1 (min (if w = 0 then 1 else rnd (maxWidth / real w))
                (if h = 0 then 1 else rnd (maxHeight / real h)))"

definition scaled_size :: "(real \<Rightarrow> real) \<Rightarrow> real \<Rightarrow> real \<Rightarrow> nat \<Rightarrow> nat \<Rightarrow> int \<times> int" where
  "scaled_size rnd maxWidth maxHeight w h =
     (let ratio = scale_ratio rnd maxWidth maxHeight w h
      in (Math_round (rnd (real w * ratio)), Math_round (rnd (real h * ratio))))"

definition resizeImageFileToDataURL ::
    "browser \<Rightarrow> File option \<Rightarrow> real \<Rightarrow> real \<Rightarrow> real \<Rightarrow> string settled" where
  "resizeImageFileToDataURL env f maxWidth maxHeight quality =
     (case f of
        None \<Rightarrow> Resolved ''''
      | Some _ \<Rightarrow>
          (case firstRead env of
             None \<Rightarrow> Rejected
           | Some src \<Rightarrow>
               (case decode env src of
                  None \<Rightarrow> Rejected
                | Some (w, h) \<Rightarrow>
                    (let (w', h') = scaled_size (fl env) maxWidth maxHeight w h
                     in if \<not> draws env src w' h' then Never_settled
                        else case toDataURL env src w' h' quality of
                               None \<Rightarrow> Rejected
                             | Some dataUrl \<Rightarrow> Resolved dataUrl))))"

definition THRESHOLD :: nat where
  "THRESHOLD = 200 * 1024"

text \<open>
  \<open>convertFileForStorage\<close> returns a string, or never returns (\<open>None\<close>) when the
  promise it awaits is never settled.
\<close>

definition convertFileForStorage :: "browser \<Rightarrow> File option \<Rightarrow> string option" where
  "convertFileForStorage env f =
     (case f of
        None \<Rightarrow> Some ''''
      | Some fi \<Rightarrow>
          (case (if size_file fi > THRESHOLD
                 then resizeImageFileToDataURL env f 1000 1000 (7 / 10)
                 else fileToDataURL (firstRead env) f) of
             Resolved url \<Rightarrow> Some url
           | Never_settled \<Rightarrow> None
           | Rejected \<Rightarrow>
               (case fileToDataURL (secondRead env) f of
                  Resolved url \<Rightarrow> Some url
                | Never_settled \<Rightarrow> None
                | Rejected \<Rightarrow> Some '''')))"

subsection \<open>\<open>escapeHtml\<close>\<close>

datatype js_text = Undefined | Null | Str string

text \<open>\<open>String(str || '')\<close>: a falsy argument becomes the empty string.\<close>

definition String_or_empty :: "js_text \<Rightarrow> string" where
  "String_or_empty v = (case v of Str s \<Rightarrow> s | _ \<Rightarrow> '''')"

definition escape_char :: "char \<Rightarrow> string" where
  "escape_char m =
     (if m = CHR ''&'' then ''&amp;''
      else if m = CHR ''<'' then ''&lt;''
      else if m = CHR ''>'' then ''&gt;''
      else if m = CHR 0x22 then ''&quot;''
      else if m = CHR 0x27 then ''&#39;''
      else [m])"

definition escapeHtml :: "js_text \<Rightarrow> string" where
  "escapeHtml str = concat (map escape_char (String_or_empty str))"

definition entities :: "string list" where
  "entities = [''&amp;'', ''&lt;'', ''&gt;'', ''&quot;'', ''&#39;'']"

subsection \<open>The product form and the delete button\<close>

text \<open>
  The values of the form's inputs when it is submitted. \<open>prod_price\<close> is
  \<open>Number(priceEl.value)\<close>, with \<open>None\<close> for \<open>NaN\<close>. The category select offers
  the empty value and one option per stored category, whose value is the decimal string of
  the category's id; comparing these strings is comparing the ids.
\<close>

record product_form =
  prod_title :: js_string
  prod_price :: "real option"
  prod_desc :: js_string
  prod_image :: js_string
  prod_image_file :: "File option"
  prod_category :: "int option"

text \<open>
  \<open>String.prototype.trim\<close> removes the white space and the line terminators of
  ECMAScript from both ends: tab, line feed, vertical tab, form feed, carriage return,
  space, no-break space (U+00A0), U+1680, U+2000 to U+200A, the line and paragraph
  separators (U+2028, U+2029), U+202F, U+205F, U+3000 and the byte order mark (U+FEFF).
\<close>

definition is_space :: "nat \<Rightarrow> bool" where
  "is_space c =
     (c \<in> set [0x09, 0x0A, 0x0B, 0x0C, 0x0D, 0x20, 0xA0, 0x1680, 0x2028, 0x2029, 0x202F,
                0x205F, 0x3000, 0xFEFF]
      \<or> (0x2000 \<le> c \<and> c \<le> 0x200A))"

definition trim :: "js_string \<Rightarrow> js_string" where
  "trim s = rev (dropWhile is_space (rev (dropWhile is_space s)))"

definition name_of :: "entry \<Rightarrow> js_string option" where
  "name_of e = (case e of Category _ n _ \<Rightarrow> Some n | Product _ _ _ _ _ _ \<Rightarrow> None)"

text \<open>
  The submit handler of \<open>addProductForm\<close>. \<open>now\<close> is what \<open>Date.now()\<close> returns.
  Every exception (a stored value that is not an array has no \<open>find\<close> and no
  \<open>unshift\<close>; \<open>setItem\<close> may throw) is caught by the handler's \<open>try\<close>, and the
  storage stays as it was; so it does when the conversion of the file never returns and
  the handler never goes on.
\<close>

definition addProductForm_submit ::
    "entry set_item \<Rightarrow> browser \<Rightarrow> int \<Rightarrow> product_form \<Rightarrow> entry storage \<Rightarrow> entry storage" where
  "addProductForm_submit setItem env now form st =
     (let title_v = trim (prod_title form)
      in if title_v = [] then st
         else
          (let price_v = (case prod_price form of None \<Rightarrow> 0 | Some x \<Rightarrow> x);
               description_v = trim (prod_desc form);
               image0 = trim (prod_image form);
               converted = (if image0 = [] \<and> prod_image_file form \<noteq> None
                            then map_option units
                                   (convertFileForStorage env (prod_image_file form))
                            else Some image0)
           in case converted of
                None \<Rightarrow> st
              | Some image_v \<Rightarrow>
                 (let found = (case prod_category form of
                                 None \<Rightarrow> Some None
                               | Some cid \<Rightarrow>
                                   (case as_array (loadLocal st CATEGORIES_KEY) of
                                      None \<Rightarrow> None
                                    | Some cats \<Rightarrow>
                                        Some (find (\<lambda>c. id_entry c = cid) cats)))
                  in case found of
                       None \<Rightarrow> st
                     | Some fnd \<Rightarrow>
                        (let category_v = map_option (\<lambda>c. (id_entry c, name_of c)) fnd;
                             payload =
                               Product now title_v price_v description_v image_v category_v
                         in case as_array (loadLocal st PRODUCTS_KEY) of
                              None \<Rightarrow> st
                            | Some arr \<Rightarrow>
                                (case saveLocal setItem st PRODUCTS_KEY (payload # arr) of
                                   Inl e \<Rightarrow> st
                                 | Inr st' \<Rightarrow> st')))))"

text \<open>
  The click handler of a product's delete button; \<open>pid\<close> is the id of the product
  the button was rendered for. An exception leaves the handler uncaught, and the storage
  as it was.
\<close>

definition delete_click :: "entry set_item \<Rightarrow> int \<Rightarrow> entry storage \<Rightarrow> entry storage" where
  "delete_click setItem pid st =
     (case as_array (loadLocal st PRODUCTS_KEY) of
        None \<Rightarrow> st
      | Some arr \<Rightarrow>
          (case saveLocal setItem st PRODUCTS_KEY (filter (\<lambda>x. id_entry x \<noteq> pid) arr) of
             Inl e \<Rightarrow> st
           | Inr st' \<Rightarrow> st'))"

datatype store_op = Add int browser product_form | Delete int

fun apply_store_op :: "entry set_item \<Rightarrow> store_op \<Rightarrow> entry storage \<Rightarrow> entry storage" where
  "apply_store_op setItem (Add now env form) st = addProductForm_submit setItem env now form st"
| "apply_store_op setItem (Delete pid) st = delete_click setItem pid st"

fun run_store_ops :: "entry set_item \<Rightarrow> store_op list \<Rightarrow> entry storage \<Rightarrow> entry storage" where
  "run_store_ops setItem [] st = st"
| "run_store_ops setItem (x # xs) st = run_store_ops setItem xs (apply_store_op setItem x st)"

definition stored_ids :: "entry storage \<Rightarrow> int list" where
  "stored_ids st =
     (case as_array (loadLocal st PRODUCTS_KEY) of None \<Rightarrow> [] | Some arr \<Rightarrow> map id_entry arr)"

text \<open>
  An add stores a product when the stored ids are not the same after it. The clock
  readings of a run are fresh when the reading of each add that stores a product differs
  from every id stored at the moment of that add.
\<close>

fun fresh_clock :: "entry set_item \<Rightarrow> store_op list \<Rightarrow> entry storage \<Rightarrow> bool" where
  "fresh_clock setItem [] st = True"
| "fresh_clock setItem (x # xs) st =
     ((case x of
         Add now env form \<Rightarrow>
           stored_ids (addProductForm_submit setItem env now form st) = stored_ids st \<or>
           now \<notin> set (stored_ids st)
       | Delete pid \<Rightarrow> True)
      \<and> fresh_clock setItem xs (apply_store_op setItem x st))"

section \<open>API clients\<close>

text \<open>
  What the network does with a request is an input: no connection, no answer at all, or
  the headers of a response after some milliseconds, carrying a status, and then a body.
  Reading the body as JSON gives a value, or fails (the body does not parse, or the
  connection breaks), or never ends.
\<close>

datatype 'j body = Json 'j | Invalid_json | Never_ends

datatype 'j fetch_outcome =
    Network_error
  | No_response
  | Response (latency_ms: nat) (status: nat) (payload: "'j body")

definition ok :: "nat \<Rightarrow> bool" where
  "ok st_code = (200 \<le> st_code \<and> st_code \<le> 299)"

datatype js_error = TypeError | AbortError | HttpError nat | SyntaxError

datatype 'a promise = Fulfilled 'a | Failed js_error | Pending

subsection \<open>Product page\<close>

datatype page_product =
  PageProduct (id_page: int) (name_page: string) (price_page: real) (description_page: string)
    (image_page: string) (category_page: string)

definition mockProductsTable :: "(string \<times> page_product) list" where
  "mockProductsTable =
     [(''1'', PageProduct 1 ''Golden Elegance Necklace'' 40000
         ''Handcrafted in 18K gold with dazzling diamonds, this necklace embodies timeless luxury.''
         ''images/necklace_1.png'' ''necklaces''),
      (''2'', PageProduct 2 ''Diamond Ring'' 950
         ''Exquisite diamond ring with platinum setting, perfect for special occasions.''
         ''images/necklace_2.png'' ''rings''),
      (''3'', PageProduct 3 ''Pearl Earrings'' 780
         ''Classic pearl earrings for elegant occasions, crafted with attention to detail.''
         ''images/necklace_3.png'' ''earrings''),
      (''4'', PageProduct 4 ''Luxury Bracelet'' 1100
         ''Sophisticated gold bracelet with intricate design, a statement piece for any outfit.''
         ''images/necklace_4.png'' ''bracelets'')]"

text \<open>
  \<open>getProductId\<close>: the \<open>id\<close> parameter of the URL, or 1 when it is missing or
  empty. A property key is a string either way.
\<close>

definition getProductId :: "string option \<Rightarrow> string" where
  "getProductId param =
     (case param of None \<Rightarrow> ''1'' | Some v \<Rightarrow> if v = [] then ''1'' else v)"

text \<open>
  \<open>mockProducts[this.productId] || mockProducts[1]\<close>. The table is an object literal,
  so the lookup also finds the properties every object inherits from
  \<open>Object.prototype\<close>; each of them is a function or an object, hence truthy, and is
  returned in place of a product.
\<close>

definition Object_prototype_names :: "string list" where
  "Object_prototype_names =
     [''constructor'', ''__proto__'', ''hasOwnProperty'', ''isPrototypeOf'',
      ''propertyIsEnumerable'', ''toLocaleString'', ''toString'', ''valueOf'',
      ''__defineGetter__'', ''__defineSetter__'', ''__lookupGetter__'', ''__lookupSetter__'']"

datatype mock_value = Mock_product page_product | Inherited_property string

definition getMockProduct :: "string \<Rightarrow> mock_value" where
  "getMockProduct productId =
     (case map_of mockProductsTable productId of
        Some p \<Rightarrow> Mock_product p
      | None \<Rightarrow>
          if productId \<in> set Object_prototype_names then Inherited_property productId
          else Mock_product (PageProduct 1 ''Golden Elegance Necklace'' 40000
         ''Handcrafted in 18K gold with dazzling diamonds, this necklace embodies timeless luxury.''
         ''images/necklace_1.png'' ''necklaces''))"

datatype 'j api_value = Parsed 'j | Mock mock_value

definition TIMEOUT_MS :: nat where
  "TIMEOUT_MS = 1500"

text \<open>
  \<open>ProductManager.apiRequest\<close>: the abort fires when \<open>fetch\<close> has not settled after
  \<open>TIMEOUT_MS\<close>, and the timer is cleared as soon as \<open>fetch\<close> has settled, before
  the body is read. Every exception of the \<open>try\<close> block ends in the mock value; a body
  that never ends leaves the promise pending.
\<close>

definition ProductManager_apiRequest :: "string \<Rightarrow> 'j fetch_outcome \<Rightarrow> 'j api_value promise" where
  "ProductManager_apiRequest productId outcome =
     (case outcome of
        Network_error \<Rightarrow> Fulfilled (Mock (getMockProduct productId))
      | No_response \<Rightarrow> Fulfilled (Mock (getMockProduct productId))
      | Response ms code b \<Rightarrow>
          if ms \<ge> TIMEOUT_MS then Fulfilled (Mock (getMockProduct productId))
          else if \<not> ok code then Fulfilled (Mock (getMockProduct productId))
          else (case b of
                  Invalid_json \<Rightarrow> Fulfilled (Mock (getMockProduct productId))
                | Never_ends \<Rightarrow> Pending
                | Json j \<Rightarrow> Fulfilled (Parsed j)))"

subsection \<open>Admin panel\<close>

text \<open>
  \<open>AdminPanel.apiRequest\<close> sets no timer. Its \<open>catch\<close> logs, shows a notification
  and throws the error again. The result is the promise and the notifications shown.
\<close>

definition AdminPanel_apiRequest :: "'j fetch_outcome \<Rightarrow> 'j promise \<times> string list" where
  "AdminPanel_apiRequest outcome =
     (case outcome of
        Network_error \<Rightarrow> (Failed TypeError, [''Error connecting to server''])
      | No_response \<Rightarrow> (Pending, [])
      | Response ms code b \<Rightarrow>
          if \<not> ok code then (Failed (HttpError code), [''Error connecting to server''])
          else (case b of
                  Invalid_json \<Rightarrow> (Failed SyntaxError, [''Error connecting to server''])
                | Never_ends \<Rightarrow> (Pending, [])
                | Json j \<Rightarrow> (Fulfilled j, [])))"

text \<open>
  \<open>AdminPanel.loadProducts\<close>, the one caller that answers a failed request with the mock
  data; \<open>extract\<close> is \<open>data.products || data\<close>. \<open>None\<close>: the request is still
  pending.
\<close>

definition loadProducts :: "('j \<Rightarrow> product list) \<Rightarrow> 'j fetch_outcome \<Rightarrow> admin_panel \<Rightarrow> admin_panel option" where
  "loadProducts extract outcome st =
     (case fst (AdminPanel_apiRequest outcome) of
        Fulfilled data \<Rightarrow> Some (loadProducts_ok (extract data) st)
      | Failed e \<Rightarrow> Some (loadMockProducts st)
      | Pending \<Rightarrow> None)"


text \<open>The characters \<open>escapeHtml\<close> replaces.\<close>

definition specials :: "char set" where
  "specials = {CHR ''&'', CHR ''<'', CHR ''>'', CHR 0x22, CHR 0x27}"

text \<open>Every \<open>&\<close> of a string starts one of the five entities.\<close>

definition amp_ok :: "string \<Rightarrow> bool" where
  "amp_ok out =
     (\<forall>i < length out. out ! i = CHR ''&'' \<longrightarrow> (\<exists>e \<in> set entities. prefix e (drop i out)))"

section \<open>Runs of the admin panel\<close>

text \<open>
  The states the panel reaches from its constructor: products arrive, the search box or the
  category select changes (the handlers call \<open>filterProducts\<close>), a page is asked for,
  the table is rendered again. \<open>allowed st p\<close> says which pages \<open>p\<close> may be asked
  for in state \<open>st\<close>: any page at all, or one of the pages 1 to \<open>totalPages\<close> that
  the page buttons offer.
\<close>

definition any_page :: "admin_panel \<Rightarrow> int \<Rightarrow> bool" where
  "any_page st p = True"

definition offered_page :: "admin_panel \<Rightarrow> int \<Rightarrow> bool" where
  "offered_page st p = (1 \<le> p \<and> p \<le> totalPages st)"

inductive reachable :: "(admin_panel \<Rightarrow> int \<Rightarrow> bool) \<Rightarrow> admin_panel \<Rightarrow> bool"
  for allowed :: "admin_panel \<Rightarrow> int \<Rightarrow> bool" where
  constructed: "reachable allowed (constructor search cat)"
| loaded: "reachable allowed st \<Longrightarrow> reachable allowed (loadProducts_ok ps st)"
| filtered: "reachable allowed st \<Longrightarrow>
    reachable allowed (filterProducts (st\<lparr>searchProducts := search, categoryFilter := cat\<rparr>))"
| paged: "reachable allowed st \<Longrightarrow> allowed st p \<Longrightarrow> reachable allowed (goToPage p st)"
| rendered: "reachable allowed st \<Longrightarrow> reachable allowed (renderProducts st)"

text \<open>The number of pages of the products that pass the filter now.\<close>

definition filteredPages :: "admin_panel \<Rightarrow> int" where
  "filteredPages st =
     Math_ceil (real (length (getFilteredProducts st)) / real_of_int (itemsPerPage st))"

definition page_inv :: "admin_panel \<Rightarrow> bool" where
  "page_inv st =
     (itemsPerPage st = 10 \<and> 1 \<le> currentPage st \<and> currentPage st \<le> max 1 (totalPages st) \<and>
      tableRows st = getPaginatedProducts st (getFilteredProducts st) \<and>
      (tableRows st \<noteq> [] \<longrightarrow> totalPages st = filteredPages st \<and> currentPage st \<le> totalPages st))"

section \<open>Notions used in the statements\<close>

text \<open>
  A request fails when there is no connection, when the status is not a 2xx one, or when
  reading the body fails. It times out, on the product page, when \<open>fetch\<close> has not
  settled after \<open>TIMEOUT_MS\<close>.
\<close>

definition request_failed :: "'j fetch_outcome \<Rightarrow> bool" where
  "request_failed outcome =
     (case outcome of
        Network_error \<Rightarrow> True
      | No_response \<Rightarrow> False
      | Response ms code b \<Rightarrow> \<not> ok code \<or> b = Invalid_json)"

definition timed_out :: "'j fetch_outcome \<Rightarrow> bool" where
  "timed_out outcome =
     (case outcome of
        Network_error \<Rightarrow> False
      | No_response \<Rightarrow> True
      | Response ms code b \<Rightarrow> ms \<ge> TIMEOUT_MS)"

text \<open>
  The failures of the resize path of \<open>convertFileForStorage\<close>. Three of them reject
  its promise: the reader fails, the image does not decode, the canvas refuses to export.
  The fourth, no context or no drawing, happens in the \<open>onload\<close> callback outside
  the \<open>try\<close>.
\<close>

definition resize_rejected :: "browser \<Rightarrow> bool" where
  "resize_rejected env =
     (case firstRead env of
        None \<Rightarrow> True
      | Some src \<Rightarrow>
          (case decode env src of
             None \<Rightarrow> True
           | Some (w, h) \<Rightarrow>
               draws env src (fst (scaled_size (fl env) 1000 1000 w h))
                 (snd (scaled_size (fl env) 1000 1000 w h)) \<and>
               toDataURL env src (fst (scaled_size (fl env) 1000 1000 w h))
                 (snd (scaled_size (fl env) 1000 1000 w h)) (7 / 10) = None))"

definition drawing_fails :: "browser \<Rightarrow> bool" where
  "drawing_fails env =
     (case firstRead env of
        None \<Rightarrow> False
      | Some src \<Rightarrow>
          (case decode env src of
             None \<Rightarrow> False
           | Some (w, h) \<Rightarrow>
               \<not> draws env src (fst (scaled_size (fl env) 1000 1000 w h))
                   (snd (scaled_size (fl env) 1000 1000 w h))))"

definition raw_or_empty :: "string option \<Rightarrow> string" where
  "raw_or_empty rd = (case rd of Some url \<Rightarrow> url | None \<Rightarrow> [])"




section \<open>States used in the examples\<close>

text \<open>
  The panel after the mock products were loaded with both inputs empty, and then with
  \<open>ring\<close> typed into the search box.
\<close>

definition search_ring :: admin_panel where
  "search_ring = (loadMockProducts (constructor [] []))\<lparr>searchProducts := ''ring''\<rparr>"

text \<open>
  The panel after the mock products were loaded, and a panel that was sent twenty-five
  products.
\<close>

definition after_mock :: admin_panel where
  "after_mock = loadMockProducts (constructor [] [])"

definition twenty_five :: "product list" where
  "twenty_five = replicate 25 (mockProducts ! 0)"

definition three_pages :: admin_panel where
  "three_pages = loadProducts_ok twenty_five (constructor [] [])"

text \<open>
  A browser in which every step succeeds on a 3000 by 2000 image, one in which the image
  does not decode, one in which no read succeeds, and one in which the canvas gives no
  context.
\<close>

definition png_url :: string where
  "png_url = ''data:image/png;base64,iVBORw0KGgo=''"

definition jpeg_url :: string where
  "jpeg_url = ''data:image/jpeg;base64,/9j/4AAQSkZJRg==''"

definition sample_browser :: browser where
  "sample_browser =
     \<lparr>firstRead = Some png_url, secondRead = Some png_url,
      decode = (\<lambda>src. Some (3000, 2000)),
      draws = (\<lambda>src w h. True),
      toDataURL = (\<lambda>src w h q. if w = 1000 \<and> h = 667 \<and> q = 7 / 10 then Some jpeg_url else None),
      fl = (\<lambda>x. x)\<rparr>"

definition broken_image_browser :: browser where
  "broken_image_browser = sample_browser\<lparr>decode := (\<lambda>src. None)\<rparr>"

definition failing_browser :: browser where
  "failing_browser = sample_browser\<lparr>firstRead := None, secondRead := None\<rparr>"

definition no_context_browser :: browser where
  "no_context_browser = sample_browser\<lparr>draws := (\<lambda>src w h. False)\<rparr>"

text \<open>
  A storage that weighs a stored array by its number of entries, three product forms (the
  title of the last is a no-break space and a space), and a storage with four products and
  four categories that has room for no further entry.
\<close>

definition entries_weight :: "entry stored \<Rightarrow> nat" where
  "entries_weight v = (case v of Json_array xs \<Rightarrow> length xs | _ \<Rightarrow> 1)"

definition form_ring :: product_form where
  "form_ring = \<lparr>prod_title = units '' Gold Ring '', prod_price = Some 950, prod_desc = [],
     prod_image = units ''images/ring.png'', prod_image_file = None, prod_category = None\<rparr>"

definition form_chain :: product_form where
  "form_chain = \<lparr>prod_title = units ''Silver Chain'', prod_price = None, prod_desc = [],
     prod_image = [], prod_image_file = None, prod_category = None\<rparr>"

definition form_blank :: product_form where
  "form_blank = \<lparr>prod_title = [0xA0, 0x20], prod_price = Some 1, prod_desc = [],
     prod_image = [], prod_image_file = None, prod_category = None\<rparr>"

definition four_products :: "entry list" where
  "four_products = map (\<lambda>i. Product i (units ''P'') 0 [] [] None) [4, 3, 2, 1]"

definition four_categories :: "entry list" where
  "four_categories = map (\<lambda>i. Category i (units ''C'') []) [14, 13, 12, 11]"

definition full_storage :: "entry storage" where
  "full_storage = [(''local-products'', Json_array four_products),
                   (''local-categories'', Json_array four_categories)]"

definition five_products :: "entry list" where
  "five_products = Product 5 (units ''P'') 0 [] [] None # four_products"

section \<open>Properties of the product table\<close>

subsection \<open>Auxiliary facts\<close>

lemma slice_nonneg:
  "0 \<le> a \<Longrightarrow> a \<le> b \<Longrightarrow> slice xs a b = take (nat (b - a)) (drop (nat a) xs)"
proof (cases "a \<le> int (length xs)")
  case True
  assume "0 \<le> a" "a \<le> b"
  with True show ?thesis
    unfolding slice_def Let_def by (auto simp: min_def nat_diff_distrib)
next
  case False
  assume "0 \<le> a" "a \<le> b"
  with False show ?thesis
    unfolding slice_def Let_def by (auto simp: min_def)
qed

lemma concat_pages_nat:
  "concat (map (\<lambda>j. take k (drop (j * k) xs)) [0..<t]) = take (t * k) xs"
proof (induction t)
  case 0
  show ?case by simp
next
  case (Suc t)
  have "take (t * k) xs @ take k (drop (t * k) xs) = take (t * k + k) xs"
    by (simp add: take_add)
  with Suc show ?case by (simp add: add.commute)
qed

lemma upto_as_map: "[1..int t] = map (\<lambda>j. int j + 1) [0..<t]"
  by (induction t) (auto simp: upto_rec2)

lemma Math_ceil_nonneg:
  assumes "0 < k"
  shows "0 \<le> Math_ceil (real n / real_of_int k)"
proof -
  have "0 \<le> real n / real_of_int k" using assms by simp
  then show ?thesis unfolding Math_ceil_def by linarith
qed

lemma ceil_pages:
  assumes "0 < k"
  shows "n \<le> nat (Math_ceil (real n / real_of_int k)) * nat k"
proof -
  have "real n / real_of_int k \<le> real_of_int (Math_ceil (real n / real_of_int k))"
    by (simp add: Math_ceil_def)
  then have "real n \<le> real_of_int (Math_ceil (real n / real_of_int k)) * real_of_int k"
    using assms by (simp add: pos_divide_le_eq)
  then have "int n \<le> Math_ceil (real n / real_of_int k) * k"
    by (metis of_int_le_iff of_int_mult of_int_of_nat_eq)
  with Math_ceil_nonneg [OF assms, of n] show ?thesis using assms
    by (metis nat_int nat_mono nat_mult_distrib)
qed

lemma getPaginatedProducts_take_drop:
  assumes "0 < itemsPerPage st" "1 \<le> currentPage st"
  shows "getPaginatedProducts st xs =
           take (nat (itemsPerPage st)) (drop (nat ((currentPage st - 1) * itemsPerPage st)) xs)"
proof -
  have "0 \<le> (currentPage st - 1) * itemsPerPage st" using assms by simp
  then show ?thesis
    unfolding getPaginatedProducts_def Let_def using assms by (simp add: slice_nonneg)
qed

lemma pages_cover:
  assumes "0 < itemsPerPage st"
  shows "concat (map (\<lambda>p. getPaginatedProducts (st\<lparr>currentPage := p\<rparr>) xs)
           [1..Math_ceil (real (length xs) / real_of_int (itemsPerPage st))]) = xs"
proof -
  let ?k = "nat (itemsPerPage st)"
  let ?T = "Math_ceil (real (length xs) / real_of_int (itemsPerPage st))"
  have page: "getPaginatedProducts (st\<lparr>currentPage := int j + 1\<rparr>) xs = take ?k (drop (j * ?k) xs)" for j
    using getPaginatedProducts_take_drop [of "st\<lparr>currentPage := int j + 1\<rparr>" xs] assms
    by (simp add: nat_mult_distrib)
  have "[1..?T] = map (\<lambda>j. int j + 1) [0..<nat ?T]"
    using upto_as_map [of "nat ?T"] Math_ceil_nonneg [OF assms, of "length xs"] by simp
  then have "concat (map (\<lambda>p. getPaginatedProducts (st\<lparr>currentPage := p\<rparr>) xs) [1..?T])
      = concat (map (\<lambda>j. take ?k (drop (j * ?k) xs)) [0..<nat ?T])"
    by (simp add: o_def page)
  also have "\<dots> = take (nat ?T * ?k) xs" by (rule concat_pages_nat)
  also have "\<dots> = xs" using ceil_pages [OF assms, of "length xs"] by simp
  finally show ?thesis .
qed

lemma renderProducts_keeps:
  "products (renderProducts st) = products st"
  "currentPage (renderProducts st) = currentPage st"
  "itemsPerPage (renderProducts st) = itemsPerPage st"
  "searchProducts (renderProducts st) = searchProducts st"
  "categoryFilter (renderProducts st) = categoryFilter st"
  by (simp_all add: renderProducts_def renderPagination_def Let_def)

lemma toLowerCase_simps:
  "toLowerCase [] = []"
  "toLowerCase (c # cs) = toLowerCase_char c # toLowerCase cs"
  by (simp_all add: toLowerCase_def)

lemma filtered_ring:
  "getFilteredProducts (st\<lparr>products := mockProducts, searchProducts := ''ring'', categoryFilter := []\<rparr>)
     = [mockProducts ! 1, mockProducts ! 2]"
  by (simp add: getFilteredProducts_def mockProducts_def toLowerCase_simps toLowerCase_char_def)

lemma search_ring_eq:
  "search_ring = search_ring\<lparr>products := mockProducts, searchProducts := ''ring'', categoryFilter := []\<rparr>"
  by (simp add: search_ring_def loadMockProducts_def renderProducts_keeps constructor_def)

lemma search_ring_filtered:
  "getFilteredProducts search_ring = [mockProducts ! 1, mockProducts ! 2]"
  using filtered_ring [of search_ring] search_ring_eq by simp

subsection \<open>Stock classes\<close>

text \<open>
  C9. The stock class depends on the stock count alone: a count of at most 5 is low, a
  count from 6 to 20 is medium, and a count above 20 is high.
\<close>

theorem getStockClass_by_count:
  "(s \<le> 5 \<longrightarrow> getStockClass s = ''stock-low'') \<and>
   (6 \<le> s \<and> s \<le> 20 \<longrightarrow> getStockClass s = ''stock-medium'') \<and>
   (20 < s \<longrightarrow> getStockClass s = ''stock-high'')"
  by (simp add: getStockClass_def)

theorem getStockClass_by_count_witness:
  "(3::int) \<le> 5 \<and> getStockClass 3 = ''stock-low'' \<and>
   (6::int) \<le> 12 \<and> (12::int) \<le> 20 \<and> getStockClass 12 = ''stock-medium'' \<and>
   (20::int) < 50 \<and> getStockClass 50 = ''stock-high''"
  using getStockClass_by_count [of 3] getStockClass_by_count [of 12]
    getStockClass_by_count [of 50]
  by simp

subsection \<open>Pagination\<close>

text \<open>
  C8. With a positive page size and a page number of at least 1, the page of a list is
  the run of its elements at the indices from \<open>(page - 1) * pageSize\<close> up to, and
  not including, \<open>page * pageSize\<close>: it has at most \<open>pageSize\<close> elements, and the
  pages 1 to \<open>ceil(n / pageSize)\<close>, one after the other, are the list itself, so that
  no element is left out and none occurs twice.
\<close>

theorem getPaginatedProducts_pages:
  assumes "0 < itemsPerPage st" and "1 \<le> currentPage st"
  shows "(let k = nat (itemsPerPage st);
              start = nat ((currentPage st - 1) * itemsPerPage st);
              page = getPaginatedProducts st xs
          in page = take k (drop start xs) \<and>
             length page = min k (length xs - start) \<and>
             (\<forall>i < length page. page ! i = xs ! (start + i)) \<and>
             length page \<le> k) \<and>
         concat (map (\<lambda>p. getPaginatedProducts (st\<lparr>currentPage := p\<rparr>) xs)
           [1..Math_ceil (real (length xs) / real_of_int (itemsPerPage st))]) = xs"
  using getPaginatedProducts_take_drop [OF assms, of xs] pages_cover [OF assms(1), of xs]
  by (auto simp: Let_def min.commute)

subsection \<open>Searching the mock products\<close>

text \<open>
  C2, as the code has it. The search term \<open>ring\<close>, with no category chosen, selects two
  of the four mock products: \<open>Diamond Ring\<close> and \<open>Pearl Earrings\<close>, whose name
  contains \<open>ring\<close> inside \<open>Earrings\<close>. These two are the rows of the table after the
  input event.
\<close>

theorem search_ring_two_products:
  "getFilteredProducts search_ring = [mockProducts ! 1, mockProducts ! 2] \<and>
   map name (getFilteredProducts search_ring) = [''Diamond Ring'', ''Pearl Earrings''] \<and>
   map name (tableRows (filterProducts search_ring)) = [''Diamond Ring'', ''Pearl Earrings'']"
proof -
  have rows: "tableRows (filterProducts search_ring) = [mockProducts ! 1, mockProducts ! 2]"
  proof -
    have "getFilteredProducts (search_ring\<lparr>currentPage := 1\<rparr>) = [mockProducts ! 1, mockProducts ! 2]"
      using search_ring_filtered by (simp add: getFilteredProducts_def)
    moreover have "itemsPerPage search_ring = 10"
      by (simp add: search_ring_def loadMockProducts_def renderProducts_keeps constructor_def)
    ultimately show ?thesis
      by (simp add: filterProducts_def renderProducts_def renderPagination_def Let_def
          getPaginatedProducts_def slice_def)
  qed
  have names: "map name [mockProducts ! 1, mockProducts ! 2] = [''Diamond Ring'', ''Pearl Earrings'']"
    by (simp add: mockProducts_def)
  show ?thesis using rows names search_ring_filtered by simp
qed

text \<open>
  C2, as the specification has it, fails: the search does not select exactly one product,
  and the second product selected is \<open>Pearl Earrings\<close>.
\<close>

theorem search_ring_not_only_diamond_ring:
  "length (getFilteredProducts search_ring) \<noteq> 1 \<and>
   map name (getFilteredProducts search_ring) \<noteq> [''Diamond Ring'']"
  using search_ring_filtered by (simp add: mockProducts_def)

text \<open>
  The four mock products with the page size 10 of the constructor: one page, which shows
  all four.
\<close>

theorem getPaginatedProducts_pages_witness:
  "0 < itemsPerPage (constructor [] []) \<and> 1 \<le> currentPage (constructor [] []) \<and>
   getPaginatedProducts (constructor [] []) mockProducts = mockProducts \<and>
   length (getPaginatedProducts (constructor [] []) mockProducts) \<le> 10 \<and>
   Math_ceil (real (length mockProducts) / real_of_int (itemsPerPage (constructor [] []))) = 1 \<and>
   concat (map (\<lambda>p. getPaginatedProducts ((constructor [] [])\<lparr>currentPage := p\<rparr>) mockProducts) [1..1])
     = mockProducts"
  using getPaginatedProducts_pages [of "constructor [] []" mockProducts]
  by (simp add: constructor_def mockProducts_def Let_def Math_ceil_def)

section \<open>Properties of the local admin\<close>

subsection \<open>Escaping\<close>

lemma escape_char_special:
  "m \<in> specials \<Longrightarrow>
     \<exists>t. escape_char m = CHR ''&'' # t \<and> CHR ''&'' \<notin> set t \<and> escape_char m \<in> set entities"
  by (auto simp: specials_def escape_char_def entities_def)

lemma escape_char_plain: "m \<notin> specials \<Longrightarrow> escape_char m = [m]"
  by (auto simp: specials_def escape_char_def)

lemma escape_char_no_raw:
  "set (escape_char m) \<inter> {CHR ''<'', CHR ''>'', CHR 0x22, CHR 0x27} = {}"
  by (auto simp: escape_char_def)

lemma head_only: "a \<notin> set t \<Longrightarrow> i < length (a # t) \<Longrightarrow> (a # t) ! i = a \<Longrightarrow> i = 0"
  by (cases i) auto

lemma amp_ok_step:
  assumes "amp_ok rest"
  shows "amp_ok (escape_char m @ rest)"
  unfolding amp_ok_def
proof (intro allI impI)
  fix i
  let ?a = "escape_char m"
  assume i: "i < length (?a @ rest)" and amp: "(?a @ rest) ! i = CHR ''&''"
  show "\<exists>e \<in> set entities. prefix e (drop i (?a @ rest))"
  proof (cases "i < length ?a")
    case True
    then have at: "?a ! i = CHR ''&''" using amp by (simp add: nth_append)
    show ?thesis
    proof (cases "m \<in> specials")
      case True
      then obtain t where t: "?a = CHR ''&'' # t" "CHR ''&'' \<notin> set t" "?a \<in> set entities"
        using escape_char_special by blast
      have "i = 0" using head_only [OF t(2), of i] \<open>i < length ?a\<close> at t(1) by simp
      then show ?thesis using t(3) by (auto intro!: bexI [of _ "escape_char m"])
    next
      case False
      then have "?a = [m]" by (rule escape_char_plain)
      with True at have "m = CHR ''&''" by simp
      with False show ?thesis by (simp add: specials_def)
    qed
  next
    case False
    then have "rest ! (i - length ?a) = CHR ''&''" "i - length ?a < length rest"
      using amp i by (auto simp: nth_append)
    then obtain e where "e \<in> set entities" "prefix e (drop (i - length ?a) rest)"
      using assms unfolding amp_ok_def by blast
    then show ?thesis using False by auto
  qed
qed

lemma amp_ok_concat: "amp_ok (concat (map escape_char s))"
proof (induction s)
  case Nil
  show ?case by (simp add: amp_ok_def)
next
  case (Cons m s)
  then show ?case using amp_ok_step [of "concat (map escape_char s)" m] by simp
qed

lemma no_raw_concat:
  "set (concat (map escape_char s)) \<inter> {CHR ''<'', CHR ''>'', CHR 0x22, CHR 0x27} = {}"
  using escape_char_no_raw by (induction s) auto

text \<open>
  C10. The result of \<open>escapeHtml\<close> contains none of the characters \<open><\<close>, \<open>>\<close>,
  double quote and single quote; every \<open>&\<close> in it is the first character of an
  occurrence of one of the entities \<open>&amp;\<close>, \<open>&lt;\<close>, \<open>&gt;\<close>, \<open>&quot;\<close>,
  \<open>&#39;\<close>; and \<open>null\<close> and \<open>undefined\<close> give the empty string.
\<close>

theorem escapeHtml_safe:
  "set (escapeHtml v) \<inter> {CHR ''<'', CHR ''>'', CHR 0x22, CHR 0x27} = {} \<and>
   (\<forall>i < length (escapeHtml v). escapeHtml v ! i = CHR ''&'' \<longrightarrow>
      (\<exists>e \<in> set entities. prefix e (drop i (escapeHtml v)))) \<and>
   escapeHtml Null = [] \<and> escapeHtml Undefined = []"
  using amp_ok_concat [of "String_or_empty v"] no_raw_concat [of "String_or_empty v"]
  by (simp add: escapeHtml_def amp_ok_def String_or_empty_def)

theorem escapeHtml_safe_witness:
  "escapeHtml (Str ''<b>&'') = ''&lt;b&gt;&amp;'' \<and>
   (9::nat) < length (escapeHtml (Str ''<b>&'')) \<and> escapeHtml (Str ''<b>&'') ! 9 = CHR ''&'' \<and>
   (\<exists>e \<in> set entities. prefix e (drop 9 (escapeHtml (Str ''<b>&''))))"
  using escapeHtml_safe [of "Str ''<b>&''"]
  by (simp add: escapeHtml_def String_or_empty_def escape_char_def entities_def)

section \<open>The current page\<close>

lemma page_le_ceil:
  assumes k: "0 < itemsPerPage st" and p: "1 \<le> currentPage st"
    and ne: "getPaginatedProducts st xs \<noteq> []"
  shows "currentPage st \<le> Math_ceil (real (length xs) / real_of_int (itemsPerPage st))"
proof -
  let ?k = "itemsPerPage st"
  have "nat ((currentPage st - 1) * ?k) < length xs"
    using ne getPaginatedProducts_take_drop [OF k p, of xs]
    by (cases "nat ((currentPage st - 1) * ?k) < length xs") auto
  then have "(currentPage st - 1) * ?k < int (length xs)" by linarith
  then have "real_of_int (currentPage st - 1) * real_of_int ?k < real (length xs)"
    by (metis of_int_less_iff of_int_mult of_int_of_nat_eq)
  then have "real_of_int (currentPage st - 1) < real (length xs) / real_of_int ?k"
    using k by (simp add: pos_less_divide_eq)
  then have "currentPage st - 1 < Math_ceil (real (length xs) / real_of_int ?k)"
    unfolding Math_ceil_def by linarith
  then show ?thesis by simp
qed

lemma filtered_render [simp]:
  "getFilteredProducts (renderProducts st) = getFilteredProducts st"
  by (simp add: getFilteredProducts_def renderProducts_keeps)

lemma paginated_render [simp]:
  "getPaginatedProducts (renderProducts st) xs = getPaginatedProducts st xs"
  by (simp add: getPaginatedProducts_def renderProducts_keeps)

lemma render_inv:
  assumes "itemsPerPage st = 10" "1 \<le> currentPage st" "currentPage st \<le> max 1 (totalPages st)"
  shows "page_inv (renderProducts st)"
proof (cases "getPaginatedProducts st (getFilteredProducts st) = []")
  case True
  then have "renderProducts st = st\<lparr>tableRows := []\<rparr>" by (simp add: renderProducts_def Let_def)
  then show ?thesis using assms True
    by (simp add: page_inv_def getPaginatedProducts_def getFilteredProducts_def)
next
  case False
  have le: "currentPage st \<le> filteredPages st"
    unfolding filteredPages_def
    using page_le_ceil [of st "getFilteredProducts st"] assms False by simp
  have eq: "renderProducts st = st\<lparr>tableRows := getPaginatedProducts st (getFilteredProducts st),
      totalPages := filteredPages st\<rparr>"
    using False by (simp add: renderProducts_def Let_def renderPagination_def filteredPages_def)
  have "tableRows (renderProducts st) = getPaginatedProducts st (getFilteredProducts st)"
    "totalPages (renderProducts st) = filteredPages st"
    by (simp_all add: eq)
  moreover have "filteredPages (renderProducts st) = filteredPages st"
    by (simp add: filteredPages_def renderProducts_keeps)
  ultimately show ?thesis using assms le
    by (simp add: page_inv_def renderProducts_keeps)
qed

lemma unfiltered:
  "searchProducts st = [] \<Longrightarrow> categoryFilter st = [] \<Longrightarrow> getFilteredProducts st = products st"
  by (simp add: getFilteredProducts_def toLowerCase_def)

lemma render_unfiltered:
  assumes "searchProducts st = []" "categoryFilter st = []" "itemsPerPage st = 10"
    "1 \<le> currentPage st" "nat ((currentPage st - 1) * 10) < length (products st)"
  shows "renderProducts st =
    st\<lparr>tableRows := take 10 (drop (nat ((currentPage st - 1) * 10)) (products st)),
       totalPages := Math_ceil (real (length (products st)) / 10)\<rparr>"
proof -
  have f: "getFilteredProducts st = products st" using assms by (simp add: unfiltered)
  have p: "getPaginatedProducts st (products st) =
      take 10 (drop (nat ((currentPage st - 1) * 10)) (products st))"
    using getPaginatedProducts_take_drop [of st "products st"] assms by simp
  have "take 10 (drop (nat ((currentPage st - 1) * 10)) (products st)) \<noteq> []"
    using assms(5) by simp
  then show ?thesis
    unfolding renderProducts_def Let_def f p renderPagination_def using assms(3) by simp
qed

lemma after_mock_fields:
  "products after_mock = mockProducts" "currentPage after_mock = 1" "itemsPerPage after_mock = 10"
  "searchProducts after_mock = []" "categoryFilter after_mock = []"
  by (simp_all add: after_mock_def loadMockProducts_def renderProducts_keeps constructor_def)

lemma after_mock_totalPages: "totalPages after_mock = 1"
  unfolding after_mock_def loadMockProducts_def
  by (subst render_unfiltered) (simp_all add: constructor_def mockProducts_def Math_ceil_def)

lemma goToPage5:
  "currentPage (goToPage 5 after_mock) = 5 \<and> totalPages (goToPage 5 after_mock) = 1 \<and>
   filteredPages (goToPage 5 after_mock) = 1"
proof -
  let ?s = "after_mock\<lparr>currentPage := 5\<rparr>"
  have f: "getFilteredProducts ?s = mockProducts"
    by (rule trans [OF unfiltered]) (simp_all add: after_mock_fields)
  have p: "getPaginatedProducts ?s mockProducts = []"
    by (simp add: getPaginatedProducts_def slice_def after_mock_fields mockProducts_def)
  have r: "goToPage 5 after_mock = ?s\<lparr>tableRows := []\<rparr>"
    unfolding goToPage_def renderProducts_def Let_def f p by simp
  have "getFilteredProducts (?s\<lparr>tableRows := []\<rparr>) = mockProducts"
    by (rule trans [OF unfiltered]) (simp_all add: after_mock_fields)
  then show ?thesis unfolding r filteredPages_def
    by (simp add: after_mock_totalPages after_mock_fields Math_ceil_def mockProducts_def)
qed

lemma three_pages_eq:
  "three_pages = (constructor [] [])\<lparr>products := twenty_five, tableRows := take 10 twenty_five,
      totalPages := 3\<rparr>"
  unfolding three_pages_def loadProducts_ok_def
  by (subst render_unfiltered) (simp_all add: constructor_def twenty_five_def Math_ceil_def)

lemma page_three_eq:
  "goToPage 3 three_pages = (constructor [] [])\<lparr>products := twenty_five, currentPage := 3,
      tableRows := drop 20 twenty_five, totalPages := 3\<rparr>"
  unfolding goToPage_def three_pages_eq
  by (subst render_unfiltered) (simp_all add: constructor_def twenty_five_def Math_ceil_def)

text \<open>
  C3, as the code has it. \<open>goToPage\<close> stores the page it is given without a check, and
  \<open>renderProducts\<close> leaves \<open>totalPages\<close> as it was when the page to show is empty.
  In every state reached from the constructor by product loads, filter changes, renders and
  requests for a page that the page buttons offer (a page from 1 to the stored
  \<open>totalPages\<close>), the current page is at least 1 and at most the larger of 1 and the
  stored \<open>totalPages\<close>; and whenever the table shows a row, the stored \<open>totalPages\<close>
  is \<open>ceil(filteredCount / pageSize)\<close> and the current page lies within 1 and it.
\<close>

theorem currentPage_within_offered_pages:
  assumes "reachable offered_page st"
  shows "1 \<le> currentPage st \<and> currentPage st \<le> max 1 (totalPages st) \<and>
         (tableRows st \<noteq> [] \<longrightarrow>
            totalPages st =
              Math_ceil (real (length (getFilteredProducts st)) / real_of_int (itemsPerPage st)) \<and>
            currentPage st \<le> totalPages st)"
proof -
  have "page_inv st" using assms
  proof (induction rule: reachable.induct)
    case (constructed search cat)
    show ?case
      by (simp add: page_inv_def constructor_def getFilteredProducts_def
          getPaginatedProducts_def slice_def)
  next
    case (loaded st ps)
    then show ?case unfolding loadProducts_ok_def
      by (intro render_inv) (simp_all add: page_inv_def)
  next
    case (filtered st search cat)
    then show ?case unfolding filterProducts_def
      by (intro render_inv) (simp_all add: page_inv_def)
  next
    case (paged st p)
    then show ?case unfolding goToPage_def
      by (intro render_inv) (simp_all add: page_inv_def offered_page_def)
  next
    case (rendered st)
    then show ?case by (intro render_inv) (simp_all add: page_inv_def)
  qed
  then show ?thesis by (auto simp: page_inv_def filteredPages_def)
qed

text \<open>Twenty-five products and a click on the button of page 3: five rows, page 3 of 3.\<close>

theorem currentPage_within_offered_pages_witness:
  "reachable offered_page (goToPage 3 three_pages) \<and>
   currentPage (goToPage 3 three_pages) = 3 \<and> totalPages (goToPage 3 three_pages) = 3 \<and>
   length (tableRows (goToPage 3 three_pages)) = 5 \<and>
   Math_ceil (real (length (getFilteredProducts (goToPage 3 three_pages))) /
      real_of_int (itemsPerPage (goToPage 3 three_pages))) = 3"
proof -
  have "reachable offered_page three_pages"
    unfolding three_pages_def by (rule reachable.loaded) (rule reachable.constructed)
  moreover have "offered_page three_pages 3"
    by (simp add: offered_page_def three_pages_eq)
  ultimately have r: "reachable offered_page (goToPage 3 three_pages)"
    by (rule reachable.paged)
  have "length (tableRows (goToPage 3 three_pages)) = 5"
    by (simp add: page_three_eq twenty_five_def)
  then show ?thesis using r currentPage_within_offered_pages [OF r] by (simp add: page_three_eq)
qed

text \<open>
  C3, as the specification has it, fails: after the four mock products were loaded,
  \<open>goToPage(5)\<close> leaves the current page at 5 while the stored \<open>totalPages\<close> and
  \<open>ceil(filteredCount / pageSize)\<close> are both 1.
\<close>

theorem goToPage_leaves_page_range:
  "reachable any_page (goToPage 5 after_mock) \<and>
   \<not> (1 \<le> currentPage (goToPage 5 after_mock) \<and>
      currentPage (goToPage 5 after_mock) \<le> totalPages (goToPage 5 after_mock)) \<and>
   \<not> (1 \<le> currentPage (goToPage 5 after_mock) \<and>
      currentPage (goToPage 5 after_mock) \<le> filteredPages (goToPage 5 after_mock))"
proof -
  have "reachable any_page after_mock"
    unfolding after_mock_def loadMockProducts_def
    using reachable.loaded [OF reachable.constructed, of any_page mockProducts "[]" "[]"]
    by (simp add: loadProducts_ok_def)
  then have "reachable any_page (goToPage 5 after_mock)"
    by (rule reachable.paged) (simp add: any_page_def)
  then show ?thesis using goToPage5 by simp
qed

section \<open>Image ingestion\<close>

subsection \<open>The scale factor\<close>










subsection \<open>The choice of the conversion\<close>

text \<open>
  What \<open>convertFileForStorage\<close> does with a file. A file of at most 204800 bytes
  (200 KiB) is stored as the data URL the reader gives for it. A larger file is stored as
  what the canvas exports, as JPEG of quality 0.7, for the image drawn at the size that
  \<open>scaled_size\<close> computes for the bounds 1000 and 1000. When the promise of the
  resize path is rejected, and likewise when the direct read fails, the file is read once
  more and that data URL is stored; when this read fails too, the result is the empty
  string. When the context or the drawing fails, the function never returns.
\<close>

lemma convertFileForStorage_branches:
  "(size_file f \<le> 204800 \<and> firstRead env = Some url \<longrightarrow>
      convertFileForStorage env (Some f) = Some url) \<and>
   (size_file f > 204800 \<and> firstRead env = Some src \<and> decode env src = Some (w, h) \<and>
      draws env src (fst (scaled_size (fl env) 1000 1000 w h))
        (snd (scaled_size (fl env) 1000 1000 w h)) \<and>
      toDataURL env src (fst (scaled_size (fl env) 1000 1000 w h))
        (snd (scaled_size (fl env) 1000 1000 w h)) (7 / 10) = Some url \<longrightarrow>
      convertFileForStorage env (Some f) = Some url) \<and>
   (size_file f > 204800 \<and> resize_rejected env \<longrightarrow>
      convertFileForStorage env (Some f) = Some (raw_or_empty (secondRead env))) \<and>
   (size_file f \<le> 204800 \<and> firstRead env = None \<longrightarrow>
      convertFileForStorage env (Some f) = Some (raw_or_empty (secondRead env))) \<and>
   (size_file f > 204800 \<and> drawing_fails env \<longrightarrow> convertFileForStorage env (Some f) = None) \<and>
   raw_or_empty None = []"
  by (auto simp: convertFileForStorage_def THRESHOLD_def fileToDataURL_def raw_or_empty_def
      resizeImageFileToDataURL_def resize_rejected_def drawing_fails_def
      split: option.splits prod.splits)

lemma sample_size: "scaled_size (\<lambda>x. x) 1000 1000 3000 2000 = (1000, 667)"
  by (simp add: scaled_size_def scale_ratio_def Math_round_def Let_def)

text \<open>
  A file of 50 KiB is stored as it is read, a file of 500 KiB as the JPEG of the resized
  image; with an image that does not decode the 500 KiB file is stored as it is read, and
  with a reader that fails the empty string is stored.
\<close>

lemma convertFileForStorage_examples:
  "convertFileForStorage sample_browser (Some \<lparr>size_file = 51200\<rparr>) = Some png_url \<and>
   convertFileForStorage sample_browser (Some \<lparr>size_file = 512000\<rparr>) = Some jpeg_url \<and>
   convertFileForStorage broken_image_browser (Some \<lparr>size_file = 512000\<rparr>) = Some png_url \<and>
   convertFileForStorage failing_browser (Some \<lparr>size_file = 512000\<rparr>) = Some [] \<and>
   convertFileForStorage failing_browser (Some \<lparr>size_file = 51200\<rparr>) = Some []"
  using convertFileForStorage_branches
      [of "\<lparr>size_file = 51200\<rparr>" sample_browser png_url]
    convertFileForStorage_branches
      [of "\<lparr>size_file = 512000\<rparr>" sample_browser jpeg_url png_url 3000 2000]
    convertFileForStorage_branches [of "\<lparr>size_file = 512000\<rparr>" broken_image_browser]
    convertFileForStorage_branches [of "\<lparr>size_file = 512000\<rparr>" failing_browser]
    convertFileForStorage_branches [of "\<lparr>size_file = 51200\<rparr>" failing_browser]
  by (simp add: sample_browser_def broken_image_browser_def failing_browser_def sample_size
      resize_rejected_def raw_or_empty_def)

text \<open>
  C7 in a browser whose canvas gives no 2d context. The file of 500 KiB takes the resize
  path, the reader and the decoding succeed, and the failure comes in the \<open>onload\<close>
  callback before the \<open>try\<close>: the promise is never settled and
  \<open>convertFileForStorage\<close> never returns, although the second read would have given
  the raw data URL. The claim has the function fall back to the raw encoding on any
  failure in the resize path.
\<close>

theorem convertFileForStorage_no_fallback_without_context:
  "THRESHOLD < size_file \<lparr>size_file = 512000\<rparr> \<and>
   resizeImageFileToDataURL no_context_browser (Some \<lparr>size_file = 512000\<rparr>) 1000 1000 (7 / 10)
     = Never_settled \<and>
   fileToDataURL (secondRead no_context_browser) (Some \<lparr>size_file = 512000\<rparr>)
     = Resolved png_url \<and>
   convertFileForStorage no_context_browser (Some \<lparr>size_file = 512000\<rparr>) = None"
  by (simp add: convertFileForStorage_def resizeImageFileToDataURL_def fileToDataURL_def
      THRESHOLD_def no_context_browser_def sample_browser_def sample_size)

section \<open>The API clients on failure\<close>

lemma getMockProduct_1:
  "getMockProduct ''1'' = Mock_product (PageProduct 1 ''Golden Elegance Necklace'' 40000
     ''Handcrafted in 18K gold with dazzling diamonds, this necklace embodies timeless luxury.''
     ''images/necklace_1.png'' ''necklaces'')"
  by (simp add: getMockProduct_def mockProductsTable_def)

lemma getMockProduct_own:
  "map_of mockProductsTable pid = Some p \<Longrightarrow> getMockProduct pid = Mock_product p"
  by (simp add: getMockProduct_def)

lemma getMockProduct_unknown:
  "map_of mockProductsTable pid = None \<Longrightarrow> pid \<notin> set Object_prototype_names \<Longrightarrow>
     getMockProduct pid = getMockProduct ''1''"
  unfolding getMockProduct_1 by (simp add: getMockProduct_def)

lemma product_never_rejected: "ProductManager_apiRequest pid outcome \<noteq> Failed e"
  by (cases outcome) (simp_all add: ProductManager_apiRequest_def split: body.splits)

lemma product_mock:
  "request_failed outcome \<or> timed_out outcome \<Longrightarrow>
     ProductManager_apiRequest pid outcome = Fulfilled (Mock (getMockProduct pid))"
  by (cases outcome)
     (auto simp: ProductManager_apiRequest_def request_failed_def timed_out_def split: body.splits)

lemma product_parsed:
  "outcome = Response ms code (Json j) \<Longrightarrow> ms < TIMEOUT_MS \<Longrightarrow> ok code \<Longrightarrow>
     ProductManager_apiRequest pid outcome = Fulfilled (Parsed j)"
  by (simp add: ProductManager_apiRequest_def)

lemma product_fulfilled:
  "ProductManager_apiRequest pid outcome = Fulfilled v \<Longrightarrow>
     v = Mock (getMockProduct pid) \<or>
     (\<exists>ms code j. outcome = Response ms code (Json j) \<and> ms < TIMEOUT_MS \<and> ok code \<and> v = Parsed j)"
  by (cases outcome)
     (auto simp: ProductManager_apiRequest_def split: body.splits if_splits)

lemma product_pending:
  "ProductManager_apiRequest pid outcome = Pending \<longleftrightarrow>
     (\<exists>ms code. outcome = Response ms code Never_ends \<and> ms < TIMEOUT_MS \<and> ok code)"
  by (cases outcome)
     (auto simp: ProductManager_apiRequest_def split: body.splits if_splits)

lemma admin_failed:
  "request_failed outcome \<Longrightarrow>
     (\<exists>e. AdminPanel_apiRequest outcome = (Failed e, [''Error connecting to server''])) \<and>
     loadProducts extract outcome st = Some (loadMockProducts st)"
  by (cases outcome)
     (auto simp: AdminPanel_apiRequest_def request_failed_def loadProducts_def split: body.splits)

lemma admin_pending:
  "fst (AdminPanel_apiRequest outcome) = Pending \<longleftrightarrow>
     outcome = No_response \<or> (\<exists>ms code. outcome = Response ms code Never_ends \<and> ok code)"
  by (cases outcome) (auto simp: AdminPanel_apiRequest_def split: body.splits if_splits)

lemma admin_fulfilled:
  "fst (AdminPanel_apiRequest outcome) = Fulfilled j \<longleftrightarrow>
     (\<exists>ms code. outcome = Response ms code (Json j) \<and> ok code)"
  by (cases outcome) (auto simp: AdminPanel_apiRequest_def split: body.splits if_splits)

text \<open>
  C5, as the code has it. On the product page the promise of a request is never
  rejected. Without a connection, with a status that is not a 2xx one, with a body that
  cannot be read as JSON, and when \<open>fetch\<close> has not settled after the 1500 ms of the
  timeout, it is fulfilled with the mock value of the current product id: the mock product
  of that id, and the one of id 1 when the id names no property of the mock table. With a
  2xx response in time whose body parses it is fulfilled with the parsed JSON, and it
  stays pending only when such a response has a body that never ends, the timer being
  cleared before the body is read. The admin panel's \<open>apiRequest\<close> sets no timeout
  and throws the error again after showing a notification: a failed request gives a
  rejected promise, a request without an answer or with a body that never ends a promise
  that stays pending, and the promise is fulfilled only by the JSON of a 2xx response. Of
  its callers, \<open>loadProducts\<close> answers the rejection with the mock products.
\<close>

theorem api_clients_on_failure:
  "(\<forall>e. ProductManager_apiRequest pid outcome \<noteq> Failed e) \<and>
   (request_failed outcome \<or> timed_out outcome \<longrightarrow>
      ProductManager_apiRequest pid outcome = Fulfilled (Mock (getMockProduct pid))) \<and>
   (\<forall>ms code j. outcome = Response ms code (Json j) \<and> ms < TIMEOUT_MS \<and> ok code \<longrightarrow>
      ProductManager_apiRequest pid outcome = Fulfilled (Parsed j)) \<and>
   (\<forall>v. ProductManager_apiRequest pid outcome = Fulfilled v \<longrightarrow>
      v = Mock (getMockProduct pid) \<or>
      (\<exists>ms code j. outcome = Response ms code (Json j) \<and> ms < TIMEOUT_MS \<and> ok code \<and>
         v = Parsed j)) \<and>
   (ProductManager_apiRequest pid outcome = Pending \<longleftrightarrow>
      (\<exists>ms code. outcome = Response ms code Never_ends \<and> ms < TIMEOUT_MS \<and> ok code)) \<and>
   (\<forall>p. map_of mockProductsTable pid = Some p \<longrightarrow> getMockProduct pid = Mock_product p) \<and>
   (map_of mockProductsTable pid = None \<and> pid \<notin> set Object_prototype_names \<longrightarrow>
      getMockProduct pid = getMockProduct ''1'') \<and>
   (request_failed outcome \<longrightarrow>
      (\<exists>e. AdminPanel_apiRequest outcome = (Failed e, [''Error connecting to server''])) \<and>
      loadProducts extract outcome st = Some (loadMockProducts st)) \<and>
   (fst (AdminPanel_apiRequest outcome) = Pending \<longleftrightarrow>
      outcome = No_response \<or> (\<exists>ms code. outcome = Response ms code Never_ends \<and> ok code)) \<and>
   (\<forall>j. fst (AdminPanel_apiRequest outcome) = Fulfilled j \<longleftrightarrow>
      (\<exists>ms code. outcome = Response ms code (Json j) \<and> ok code))"
  apply (intro conjI)
  subgoal by (simp add: product_never_rejected)
  subgoal by (rule impI) (rule product_mock)
  subgoal by (simp add: product_parsed)
  subgoal using product_fulfilled [of pid outcome] by blast
  subgoal by (rule product_pending)
  subgoal by (simp add: getMockProduct_own)
  subgoal using getMockProduct_unknown [of pid] by blast
  subgoal by (rule impI) (rule admin_failed)
  subgoal by (rule admin_pending)
  subgoal by (simp add: admin_fulfilled)
  done

lemma example_table:
  "map_of mockProductsTable ''2'' = Some (PageProduct 2 ''Diamond Ring'' 950
     ''Exquisite diamond ring with platinum setting, perfect for special occasions.''
     ''images/necklace_2.png'' ''rings'')"
  "map_of mockProductsTable ''99'' = None" "''99'' \<notin> set Object_prototype_names"
  by (simp_all add: mockProductsTable_def Object_prototype_names_def)

lemma example_outcomes:
  "request_failed (Response 20 500 (Json mockProducts))"
  "timed_out (Response 1500 200 (Json mockProducts))"
  "(20::nat) < TIMEOUT_MS" "ok 200"
  by (simp_all add: request_failed_def timed_out_def ok_def TIMEOUT_MS_def)

theorem api_clients_on_failure_witness:
  "request_failed (Response 20 500 (Json mockProducts)) \<and>
   ProductManager_apiRequest ''2'' (Response 20 500 (Json mockProducts))
     = Fulfilled (Mock (getMockProduct ''2'')) \<and>
   timed_out (Response 1500 200 (Json mockProducts)) \<and>
   ProductManager_apiRequest ''2'' (Response 1500 200 (Json mockProducts))
     = Fulfilled (Mock (getMockProduct ''2'')) \<and>
   ProductManager_apiRequest ''2'' (Response 20 200 (Json mockProducts))
     = Fulfilled (Parsed mockProducts) \<and>
   ProductManager_apiRequest ''2'' (Response 20 200 (Never_ends :: product list body)) = Pending \<and>
   map_of mockProductsTable ''2'' = Some (PageProduct 2 ''Diamond Ring'' 950
     ''Exquisite diamond ring with platinum setting, perfect for special occasions.''
     ''images/necklace_2.png'' ''rings'') \<and>
   getMockProduct ''2'' = Mock_product (PageProduct 2 ''Diamond Ring'' 950
     ''Exquisite diamond ring with platinum setting, perfect for special occasions.''
     ''images/necklace_2.png'' ''rings'') \<and>
   map_of mockProductsTable ''99'' = None \<and> ''99'' \<notin> set Object_prototype_names \<and>
   getMockProduct ''99'' = getMockProduct ''1'' \<and>
   AdminPanel_apiRequest (Response 20 500 (Json mockProducts))
     = (Failed (HttpError 500), [''Error connecting to server'']) \<and>
   loadProducts (\<lambda>d. d) (Response 20 500 (Json mockProducts)) (constructor [] [])
     = Some (loadMockProducts (constructor [] [])) \<and>
   fst (AdminPanel_apiRequest (No_response :: product list fetch_outcome)) = Pending \<and>
   fst (AdminPanel_apiRequest (Response 20 200 (Json mockProducts))) = Fulfilled mockProducts"
proof -
  note A = api_clients_on_failure
      [of "''2''" "Response 20 500 (Json mockProducts)" "\<lambda>d. d" "constructor [] []"]
  note B = api_clients_on_failure [of "''2''" "Response 1500 200 (Json mockProducts)"]
  note C = api_clients_on_failure [of "''2''" "Response 20 200 (Json mockProducts)"]
  note D = api_clients_on_failure [of "''2''" "Response 20 200 (Never_ends :: product list body)"]
  note E = api_clients_on_failure [of "''99''" "No_response :: product list fetch_outcome"]
  note c2 = conjunct2
  have a: "ProductManager_apiRequest ''2'' (Response 20 500 (Json mockProducts))
      = Fulfilled (Mock (getMockProduct ''2''))"
    using A [THEN c2, THEN conjunct1] example_outcomes(1) by simp
  have a2: "loadProducts (\<lambda>d. d) (Response 20 500 (Json mockProducts)) (constructor [] [])
      = Some (loadMockProducts (constructor [] []))"
    using A [THEN c2, THEN c2, THEN c2, THEN c2, THEN c2, THEN c2, THEN c2, THEN conjunct1]
      example_outcomes(1) by simp
  have a3: "AdminPanel_apiRequest (Response 20 500 (Json mockProducts))
     = (Failed (HttpError 500), [''Error connecting to server''])"
    by (simp add: AdminPanel_apiRequest_def ok_def)
  have b: "ProductManager_apiRequest ''2'' (Response 1500 200 (Json mockProducts))
      = Fulfilled (Mock (getMockProduct ''2''))"
    using B [THEN c2, THEN conjunct1] example_outcomes(2) by simp
  have c: "ProductManager_apiRequest ''2'' (Response 20 200 (Json mockProducts))
      = Fulfilled (Parsed mockProducts)"
    using C [THEN c2, THEN c2, THEN conjunct1] example_outcomes(3,4) by simp
  have c3: "fst (AdminPanel_apiRequest (Response 20 200 (Json mockProducts))) = Fulfilled mockProducts"
    using C [THEN c2, THEN c2, THEN c2, THEN c2, THEN c2, THEN c2, THEN c2, THEN c2, THEN c2]
      example_outcomes(4) by simp
  have d: "ProductManager_apiRequest ''2'' (Response 20 200 (Never_ends :: product list body)) = Pending"
    using D [THEN c2, THEN c2, THEN c2, THEN c2, THEN conjunct1] example_outcomes(3,4) by simp
  have e: "getMockProduct ''99'' = getMockProduct ''1''"
    using E [THEN c2, THEN c2, THEN c2, THEN c2, THEN c2, THEN c2, THEN conjunct1]
      example_table(2,3) by simp
  have e2: "fst (AdminPanel_apiRequest (No_response :: product list fetch_outcome)) = Pending"
    using E [THEN c2, THEN c2, THEN c2, THEN c2, THEN c2, THEN c2, THEN c2, THEN c2, THEN conjunct1]
    by simp
  have f: "getMockProduct ''2'' = Mock_product (PageProduct 2 ''Diamond Ring'' 950
     ''Exquisite diamond ring with platinum setting, perfect for special occasions.''
     ''images/necklace_2.png'' ''rings'')"
    using C [THEN c2, THEN c2, THEN c2, THEN c2, THEN c2, THEN conjunct1] example_table(1)
    by simp
  show ?thesis
    by (intro conjI) (fact a a2 a3 b c c3 d e e2 f example_table example_outcomes)+
qed

text \<open>
  C5, as the specification has it, fails for the admin panel: without a connection, and
  with a response of status 500, its \<open>apiRequest\<close> gives its caller a rejected promise.
\<close>

theorem AdminPanel_apiRequest_rethrows:
  "fst (AdminPanel_apiRequest (Network_error :: product list fetch_outcome)) = Failed TypeError \<and>
   fst (AdminPanel_apiRequest (Response 20 500 (Json mockProducts))) = Failed (HttpError 500)"
  by (simp add: AdminPanel_apiRequest_def ok_def)

section \<open>The local product store\<close>

subsection \<open>Ids of the stored products\<close>

lemma map_of_update_item: "map_of (update_item k v st) k = Some v"
  by (induction st) auto

lemma quota_setItem_Inr:
  "quota_setItem weight quota st k v = Inr st' \<Longrightarrow> getItem st' k = Some v"
  by (auto simp: quota_setItem_def getItem_def Let_def map_of_update_item split: if_splits)

lemma saved_ids:
  assumes "saveLocal (quota_setItem weight quota) st PRODUCTS_KEY arr = Inr st'"
  shows "stored_ids st' = map id_entry arr"
  using quota_setItem_Inr [of weight quota st PRODUCTS_KEY "Json_array arr" st'] assms
  by (simp add: saveLocal_def stored_ids_def loadLocal_def safeParse_def as_array_def)

lemma add_ids:
  "stored_ids (addProductForm_submit (quota_setItem weight quota) env now form st) = stored_ids st \<or>
   stored_ids (addProductForm_submit (quota_setItem weight quota) env now form st)
     = now # stored_ids st"
proof (cases "as_array (loadLocal st PRODUCTS_KEY)")
  case None
  then show ?thesis
    by (auto simp: addProductForm_submit_def Let_def split: option.splits)
next
  case (Some arr)
  then have ids: "stored_ids st = map id_entry arr" by (simp add: stored_ids_def)
  show ?thesis
    using Some ids
    by (auto simp: addProductForm_submit_def Let_def dest!: saved_ids
        split: option.splits sum.splits)
qed

lemma delete_ids:
  "stored_ids (delete_click (quota_setItem weight quota) pid st) = stored_ids st \<or>
   stored_ids (delete_click (quota_setItem weight quota) pid st) = filter (\<lambda>i. i \<noteq> pid) (stored_ids st)"
proof (cases "as_array (loadLocal st PRODUCTS_KEY)")
  case None
  then show ?thesis by (simp add: delete_click_def)
next
  case (Some arr)
  then have ids: "stored_ids st = map id_entry arr" by (simp add: stored_ids_def)
  show ?thesis
    using Some ids
    by (auto simp: delete_click_def filter_map o_def dest!: saved_ids split: sum.splits)
qed

text \<open>
  C4, as the code has it. An add gives the new product the reading of the clock,
  \<open>Date.now()\<close>, as its id and compares it with nothing; a delete removes the products
  of one id. When the stored ids are pairwise distinct and the clock reading of every add
  that stores a product differs from each id stored at that moment, the stored ids are
  pairwise distinct after the run, whatever the storage weighs and allows.
\<close>

theorem stored_ids_distinct:
  assumes "distinct (stored_ids st)" and "fresh_clock (quota_setItem weight quota) ops st"
  shows "distinct (stored_ids (run_store_ops (quota_setItem weight quota) ops st))"
  using assms
proof (induction ops arbitrary: st)
  case Nil
  then show ?case by simp
next
  case (Cons x ops)
  have "distinct (stored_ids (apply_store_op (quota_setItem weight quota) x st))"
  proof (cases x)
    case (Add now env form)
    then show ?thesis
      using Cons.prems add_ids [of weight quota env now form st] by auto
  next
    case (Delete pid)
    then show ?thesis
      using Cons.prems(1) delete_ids [of weight quota pid st] by auto
  qed
  moreover have "fresh_clock (quota_setItem weight quota) ops
      (apply_store_op (quota_setItem weight quota) x st)"
    using Cons.prems(2) by simp
  ultimately show ?case using Cons.IH by simp
qed

lemma units_empty [simp]: "units s = [] \<longleftrightarrow> s = []"
  by (simp add: units_def)

lemma trims:
  "trim (units '' Gold Ring '') = units ''Gold Ring''"
  "trim (units ''Silver Chain'') = units ''Silver Chain''"
  "trim (units ''images/ring.png'') = units ''images/ring.png''"
  "trim [] = []" "trim [0xA0, 0x20] = []"
  by (simp_all add: trim_def is_space_def units_def)

lemma add_ring:
  "addProductForm_submit (quota_setItem entries_weight q) sample_browser 1000 form_ring [] =
     (if 15 \<le> q
      then [(PRODUCTS_KEY, Json_array
              [Product 1000 (units ''Gold Ring'') 950 [] (units ''images/ring.png'') None])]
      else [])"
  by (simp add: addProductForm_submit_def form_ring_def trims Let_def loadLocal_def getItem_def
      safeParse_def as_array_def saveLocal_def quota_setItem_def used_def entries_weight_def
      PRODUCTS_KEY_def)

lemma add_chain:
  "addProductForm_submit (quota_setItem entries_weight q) sample_browser t form_chain
     [(PRODUCTS_KEY, Json_array
        [Product 1000 (units ''Gold Ring'') 950 [] (units ''images/ring.png'') None])] =
     (if 16 \<le> q
      then [(PRODUCTS_KEY, Json_array [Product t (units ''Silver Chain'') 0 [] [] None,
              Product 1000 (units ''Gold Ring'') 950 [] (units ''images/ring.png'') None])]
      else [(PRODUCTS_KEY, Json_array
              [Product 1000 (units ''Gold Ring'') 950 [] (units ''images/ring.png'') None])])"
  by (simp add: addProductForm_submit_def form_chain_def trims Let_def loadLocal_def getItem_def
      safeParse_def as_array_def saveLocal_def quota_setItem_def used_def entries_weight_def
      PRODUCTS_KEY_def)

lemma add_blank:
  "addProductForm_submit setItem env t form_blank st = st"
  by (simp add: addProductForm_submit_def form_blank_def trims Let_def)

lemma delete_ring:
  "delete_click (quota_setItem entries_weight 100) 1000
     [(PRODUCTS_KEY, Json_array [Product 1001 (units ''Silver Chain'') 0 [] [] None,
         Product 1000 (units ''Gold Ring'') 950 [] (units ''images/ring.png'') None])] =
     [(PRODUCTS_KEY, Json_array [Product 1001 (units ''Silver Chain'') 0 [] [] None])]"
  by (simp add: delete_click_def Let_def loadLocal_def getItem_def
      safeParse_def as_array_def saveLocal_def quota_setItem_def used_def entries_weight_def
      PRODUCTS_KEY_def)

lemma ids_empty: "stored_ids [] = []"
  by (simp add: stored_ids_def loadLocal_def getItem_def safeParse_def as_array_def)

lemma ids_one: "stored_ids [(PRODUCTS_KEY, Json_array xs)] = map id_entry xs"
  by (simp add: stored_ids_def loadLocal_def getItem_def safeParse_def as_array_def)

text \<open>
  Two adds at the milliseconds 1000 and 1001, then the delete of the first product. And,
  in a storage with room for one product only, an add at the millisecond 1000, an add
  with a blank title and a second add at the millisecond 1000: the last two store nothing,
  so that the readings are fresh and the one stored id is distinct.
\<close>

theorem stored_ids_distinct_witness:
  "distinct (stored_ids []) \<and>
   fresh_clock (quota_setItem entries_weight 100)
     [Add 1000 sample_browser form_ring, Add 1001 sample_browser form_chain, Delete 1000] [] \<and>
   stored_ids (run_store_ops (quota_setItem entries_weight 100)
     [Add 1000 sample_browser form_ring, Add 1001 sample_browser form_chain, Delete 1000] [])
     = [1001] \<and>
   fresh_clock (quota_setItem entries_weight 15)
     [Add 1000 sample_browser form_ring, Add 1000 sample_browser form_blank,
      Add 1000 sample_browser form_chain] [] \<and>
   stored_ids (run_store_ops (quota_setItem entries_weight 15)
     [Add 1000 sample_browser form_ring, Add 1000 sample_browser form_blank,
      Add 1000 sample_browser form_chain] []) = [1000]"
proof -
  have d: "distinct (stored_ids ([] :: entry storage))" by (simp add: ids_empty)
  have f: "fresh_clock (quota_setItem entries_weight 100)
     [Add 1000 sample_browser form_ring, Add 1001 sample_browser form_chain, Delete 1000] []"
    by (simp add: add_ring add_chain ids_empty ids_one)
  have g: "fresh_clock (quota_setItem entries_weight 15)
     [Add 1000 sample_browser form_ring, Add 1000 sample_browser form_blank,
      Add 1000 sample_browser form_chain] []"
    by (simp add: add_ring add_chain add_blank ids_empty ids_one)
  have "stored_ids (run_store_ops (quota_setItem entries_weight 100)
     [Add 1000 sample_browser form_ring, Add 1001 sample_browser form_chain, Delete 1000] [])
     = [1001]"
    by (simp add: add_ring add_chain delete_ring ids_one)
  moreover have "stored_ids (run_store_ops (quota_setItem entries_weight 15)
     [Add 1000 sample_browser form_ring, Add 1000 sample_browser form_blank,
      Add 1000 sample_browser form_chain] []) = [1000]"
    by (simp add: add_ring add_chain add_blank ids_one)
  ultimately show ?thesis
    using d f g stored_ids_distinct [OF d f] stored_ids_distinct [OF d g] by simp
qed

text \<open>
  C4, as the specification has it, fails: two adds within the same millisecond store two
  products with the same id.
\<close>

theorem same_millisecond_same_id:
  "stored_ids (run_store_ops (quota_setItem entries_weight 100)
      [Add 1000 sample_browser form_ring, Add 1000 sample_browser form_chain] []) = [1000, 1000] \<and>
   \<not> distinct (stored_ids (run_store_ops (quota_setItem entries_weight 100)
      [Add 1000 sample_browser form_ring, Add 1000 sample_browser form_chain] []))"
  by (simp add: add_ring add_chain stored_ids_def loadLocal_def getItem_def safeParse_def as_array_def)

subsection \<open>Saving when the quota is exceeded\<close>

lemma update_item_twice: "update_item k v (update_item k v' st) = update_item k v st"
  by (induction st) auto

lemma update_item_other: "k' \<noteq> k \<Longrightarrow> map_of (update_item k v st) k' = map_of st k'"
  by (induction st) auto

text \<open>
  With a storage that refuses by weight, \<open>safeSaveLocal\<close> returns true exactly when its
  first write succeeds: what it frees, it frees under the key it is about to overwrite. And
  it never changes what is stored under another key.
\<close>

lemma safeSaveLocal_retry_never_helps:
  "fst (safeSaveLocal (quota_setItem weight quota) st k arr) =
     (\<exists>st'. quota_setItem weight quota st k (Json_array arr) = Inr st')"
  by (auto simp: safeSaveLocal_def quota_setItem_def Let_def update_item_twice
      split: sum.splits dom_exception.splits option.splits if_splits)

lemma safeSaveLocal_other_key_untouched:
  "k' \<noteq> k \<Longrightarrow>
     getItem (fst (snd (safeSaveLocal (quota_setItem weight quota) st k arr))) k' = getItem st k'"
  by (auto simp: safeSaveLocal_def quota_setItem_def Let_def update_item_other getItem_def
      split: sum.splits dom_exception.splits option.splits if_splits)

text \<open>
  C1 on the full storage. Saving five products over the four stored ones exceeds the quota.
  \<open>safeSaveLocal\<close> cuts the stored products, not the categories, down to the first
  two, fails again on the retry, shows the alert and returns false, leaving two products
  where four were. Had the categories been cut down to two, the same write would have
  been accepted.
\<close>

theorem safeSaveLocal_truncates_own_key:
  "safeSaveLocal (quota_setItem entries_weight 38) full_storage ''local-products'' five_products =
     (False,
      [(''local-products'', Json_array (take 2 four_products)),
       (''local-categories'', Json_array four_categories)],
      [quota_alert]) \<and>
   quota_setItem entries_weight 38
     [(''local-products'', Json_array four_products),
      (''local-categories'', Json_array (take 2 four_categories))]
     ''local-products'' (Json_array five_products) =
     Inr [(''local-products'', Json_array five_products),
      (''local-categories'', Json_array (take 2 four_categories))]"
  by (simp add: safeSaveLocal_def quota_setItem_def used_def entries_weight_def full_storage_def
      five_products_def four_products_def four_categories_def Let_def getItem_def safeParse_def
      as_array_def slice_def)

end
